theory Spec2Isabelle
  imports Main "HOL-Library.Word"
begin

section \<open>JSON-RPC 1.0 over HTTP: registry, dispatcher and caller\<close>

text \<open>
  A shallow embedding of \<^verbatim>\<open>jsonrpc_server.go\<close> and \<^verbatim>\<open>jsonrpc_client.go\<close>.
  Go values that flow through \<^verbatim>\<open>interface{}\<close> parameters (arguments, replies,
  call parameters) are kept abstract as a type variable. Functions of the Go standard
  library and of the wire codec, which the two files only call, are parameters of the
  model, bundled in records. Calls are taken one at a time: the mutexes and the atomic
  add order concurrent calls, and the model is of one such order.
\<close>

subsection \<open>Errors and panics\<close>

text \<open>
  Modelled from the spec: the fault type \<^verbatim>\<open>Error\<close>, which the two files use and do not
  declare. A fault carries at the minimum a human-readable message, and it satisfies the
  error contract.
\<close>

datatype Error = Error (message: string)

text \<open>
  Go's \<^verbatim>\<open>error\<close> values. The two package variables are distinct values
  (\<^verbatim>\<open>errors.New\<close> allocates); \<^verbatim>\<open>fmt.Errorf\<close> is kept as its format and arguments;
  \<open>Fault\<close> is an \<^verbatim>\<open>*Error\<close> used as an error; \<open>Foreign\<close> is an error produced by a
  collaborator (encoding/json, net/http, an identifier store, a closer).
\<close>

datatype goerror =
    ErrHandlerNotExported
  | ErrHandlerSignature
  | Errorf string "string list"
  | Fault Error
  | Foreign string

text \<open>A call either returns or panics.\<close>

datatype 'r result = Return 'r | Panic string

subsection \<open>What package reflect shows of a type\<close>

datatype basic =
    Bool | Int | Int64 | Uint64 | Float64 | String
  | Struct | Interface | Slice | Map | Array | Chan

datatype kind = Ptr | Func | Basic basic

text \<open>
  A \<^verbatim>\<open>reflect.Type\<close>: its name and package path (both empty for a type that is not a
  defined type, such as \<^verbatim>\<open>*T\<close> or \<^verbatim>\<open>func(int) error\<close>; the path alone is empty for
  a predeclared type), and its shape: the element type of a pointer, the inputs and
  outputs of a function, or just the kind. Two types are identical when these agree.
\<close>

datatype rtype = RType (Name: string) (PkgPath: string) (shape: shape)
  and shape = Pointer rtype | Function "rtype list" "rtype list" | Plain basic

fun Kind :: "rtype \<Rightarrow> kind" where
  "Kind (RType n p (Pointer t)) = Ptr"
| "Kind (RType n p (Function is os)) = Func"
| "Kind (RType n p (Plain b)) = Basic b"

text \<open>\<^verbatim>\<open>Elem\<close> panics on a type that has no element type: \<open>None\<close>.\<close>

fun Elem :: "rtype \<Rightarrow> rtype option" where
  "Elem (RType n p (Pointer t)) = Some t"
| "Elem (RType n p s) = None"

text \<open>\<^verbatim>\<open>NumIn\<close>, \<^verbatim>\<open>In\<close>, \<^verbatim>\<open>NumOut\<close> and \<^verbatim>\<open>Out\<close> panic on a type that is not a function.\<close>

fun FuncSig :: "rtype \<Rightarrow> (rtype list \<times> rtype list) option" where
  "FuncSig (RType n p (Function is os)) = Some (is, os)"
| "FuncSig (RType n p s) = None"

definition typeOfError :: rtype where
  "typeOfError = RType ''error'' '''' (Plain Interface)"

definition typeOfRequest :: rtype where
  "typeOfRequest = RType ''Request'' ''net/http'' (Plain Struct)"

text \<open>
  \<^verbatim>\<open>utf8.DecodeRuneInString\<close>, \<^verbatim>\<open>unicode.IsUpper\<close> and the canonical form of a header
  key, which \<^verbatim>\<open>Header.Set\<close> stores under, belong to the standard library: parameters.
\<close>

record golib =
  DecodeRuneInString :: "string \<Rightarrow> nat \<times> nat"
  IsUpper :: "nat \<Rightarrow> bool"
  CanonicalMIMEHeaderKey :: "string \<Rightarrow> string"

definition isExported :: "golib \<Rightarrow> string \<Rightarrow> bool" where
  "isExported L name = (let (rune, _) = DecodeRuneInString L name in IsUpper L rune)"

text \<open>The loop \<^verbatim>\<open>for t.Kind() == reflect.Ptr { t = t.Elem() }\<close>.\<close>

fun indirect :: "rtype \<Rightarrow> rtype" where
  "indirect (RType n p (Pointer t)) = indirect t"
| "indirect (RType n p s) = RType n p s"

definition isExportedOrBuiltin :: "golib \<Rightarrow> rtype \<Rightarrow> bool" where
  "isExportedOrBuiltin L t =
     (let t' = indirect t in isExported L (Name t') \<or> PkgPath t' = '''')"

subsection \<open>Requests\<close>

text \<open>The fields of \<^verbatim>\<open>http.Request\<close> that the two files set or read.\<close>

datatype ctx = Context nat

record Request =
  rMethod :: string
  rURL :: string
  rBody :: string
  rContext :: "ctx option"

subsection \<open>The registry\<close>

text \<open>
  A handler is an \<^verbatim>\<open>interface{}\<close> value: \<open>hname\<close> is the identifier the function was
  declared under (empty for a function literal), which reflection on the value does not
  show; \<open>htype\<close> is \<^verbatim>\<open>reflect.TypeOf(handler)\<close>; \<open>hcall\<close> is what calling it does to the
  reply, with the error it returns. A nil interface is \<open>None\<close>.
\<close>

record 'v handler =
  hname :: string
  htype :: rtype
  hcall :: "Request \<Rightarrow> 'v \<Rightarrow> 'v \<Rightarrow> 'v \<times> goerror option"

record 'v methodSpec =
  methodVal :: "'v handler"
  argsType :: rtype
  replyType :: rtype

text \<open>The map is nil (\<open>None\<close>) until the first registration.\<close>

record 'v Server =
  methods :: "(string \<rightharpoonup> 'v methodSpec) option"

definition Register ::
  "golib \<Rightarrow> 'v Server \<Rightarrow> string \<Rightarrow> 'v handler option \<Rightarrow> goerror option result \<times> 'v Server" where
  "Register L s name handler =
     (case handler of
        None \<Rightarrow> (Panic ''reflect: call of reflect.Value.Type on zero Value'', s)
      | Some vMethod \<Rightarrow>
         (let tMethod = htype vMethod in
          if PkgPath tMethod \<noteq> '''' then (Return (Some ErrHandlerNotExported), s)
          else
           (case FuncSig tMethod of
              None \<Rightarrow> (Panic ''reflect: NumIn of non-func type'', s)
            | Some (is, os) \<Rightarrow>
               (if length is \<noteq> 3 then (Return (Some ErrHandlerSignature), s)
                else
                 (let reqType = is ! 0 in
                  if Kind reqType \<noteq> Ptr \<or> Elem reqType \<noteq> Some typeOfRequest
                  then (Return (Some ErrHandlerSignature), s)
                  else
                   (let args = is ! 1 in
                    if Kind args \<noteq> Ptr \<or> \<not> isExportedOrBuiltin L args
                    then (Return (Some ErrHandlerSignature), s)
                    else
                     (let reply = is ! 2 in
                      if Kind reply \<noteq> Ptr \<or> \<not> isExportedOrBuiltin L reply
                      then (Return (Some ErrHandlerSignature), s)
                      else if length os \<noteq> 1 then (Return (Some ErrHandlerSignature), s)
                      else if os ! 0 \<noteq> typeOfError then (Return (Some ErrHandlerSignature), s)
                      else
                       (case Elem args of
                          None \<Rightarrow> (Panic ''reflect: Elem of invalid type'', s)
                        | Some a \<Rightarrow>
                           (case Elem reply of
                              None \<Rightarrow> (Panic ''reflect: Elem of invalid type'', s)
                            | Some r \<Rightarrow>
                               (let spec = \<lparr>methodVal = vMethod, argsType = a, replyType = r\<rparr> in
                                case methods s of
                                  None \<Rightarrow>
                                    (Return None, s\<lparr>methods := Some (Map.empty(name \<mapsto> spec))\<rparr>)
                                | Some m \<Rightarrow>
                                   (if m name \<noteq> None
                                    then (Return (Some (Errorf ''rpc: method already defined: %s'' [name])), s)
                                    else (Return None, s\<lparr>methods := Some (m(name \<mapsto> spec))\<rparr>))))))))))))"

text \<open>Reading a nil map yields the zero value, here a nil \<^verbatim>\<open>*methodSpec\<close>.\<close>

definition get :: "'v Server \<Rightarrow> string \<Rightarrow> goerror + 'v methodSpec" where
  "get s name =
     (case (case methods s of None \<Rightarrow> None | Some m \<Rightarrow> m name) of
        None \<Rightarrow> Inl (Errorf ''rpc: can't find method %q'' [name])
      | Some spec \<Rightarrow> Inr spec)"

subsection \<open>The dispatcher\<close>

text \<open>
  An \<^verbatim>\<open>http.ResponseWriter\<close>: the header map, the status and headers that went out with
  the first \<^verbatim>\<open>WriteHeader\<close> (later header changes do not reach the peer, and a second
  \<^verbatim>\<open>WriteHeader\<close> is ignored), and the body written so far.
\<close>

record ResponseWriter =
  header :: "string \<rightharpoonup> string list"
  wroteHeader :: "(int \<times> (string \<rightharpoonup> string list)) option"
  written :: string

definition Header_Set :: "golib \<Rightarrow> ResponseWriter \<Rightarrow> string \<Rightarrow> string \<Rightarrow> ResponseWriter" where
  "Header_Set L w key val = w\<lparr>header := (header w)(CanonicalMIMEHeaderKey L key \<mapsto> [val])\<rparr>"

definition WriteHeader :: "ResponseWriter \<Rightarrow> int \<Rightarrow> ResponseWriter" where
  "WriteHeader w status =
     (case wroteHeader w of
        None \<Rightarrow> w\<lparr>wroteHeader := Some (status, header w)\<rparr>
      | Some _ \<Rightarrow> w)"

definition StatusOK :: int where "StatusOK = 200"
definition StatusBadRequest :: int where "StatusBadRequest = 400"
definition StatusMethodNotAllowed :: int where "StatusMethodNotAllowed = 405"

text \<open>\<^verbatim>\<open>fmt.Fprint(w, msg)\<close> calls \<^verbatim>\<open>w.Write\<close>, which sends the header first if none went out.\<close>

definition Fprint :: "ResponseWriter \<Rightarrow> string \<Rightarrow> ResponseWriter" where
  "Fprint w msg = (let w' = WriteHeader w StatusOK in w'\<lparr>written := written w' @ msg\<rparr>)"

definition WriteError :: "golib \<Rightarrow> ResponseWriter \<Rightarrow> int \<Rightarrow> string \<Rightarrow> ResponseWriter" where
  "WriteError L w status msg =
     Fprint (WriteHeader (Header_Set L w ''Content-Type'' ''text/plain; charset=utf-8'') status) msg"

text \<open>
  The codec is declared outside the two files: a parameter. \<^verbatim>\<open>NewCodec().NewRequest(r)\<close>
  is determined by the request, so each method of the codec request takes it.
  \<open>cReadRequest\<close> fills the argument value it is given.
\<close>

record 'v codec =
  cMethod :: "Request \<Rightarrow> goerror + string"
  cReadRequest :: "Request \<Rightarrow> 'v \<Rightarrow> goerror option \<times> 'v"
  cWriteResponse :: "Request \<Rightarrow> ResponseWriter \<Rightarrow> 'v \<Rightarrow> ResponseWriter"
  cWriteError :: "Request \<Rightarrow> ResponseWriter \<Rightarrow> int \<Rightarrow> goerror \<Rightarrow> ResponseWriter"

text \<open>\<open>new\<close> is \<^verbatim>\<open>reflect.New\<close>: a zero value of the type.\<close>

definition ServeHTTP ::
  "golib \<Rightarrow> 'v codec \<Rightarrow> (rtype \<Rightarrow> 'v) \<Rightarrow> 'v Server \<Rightarrow> ResponseWriter \<Rightarrow> Request \<Rightarrow> ResponseWriter" where
  "ServeHTTP L C new s w r =
     (if rMethod r \<noteq> ''POST''
      then WriteError L w StatusMethodNotAllowed (''rpc: POST method required, received '' @ rMethod r)
      else
       (case cMethod C r of
          Inl errMethod \<Rightarrow> cWriteError C r w StatusBadRequest errMethod
        | Inr name \<Rightarrow>
           (case get s name of
              Inl errGet \<Rightarrow> cWriteError C r w StatusBadRequest errGet
            | Inr methodSpec \<Rightarrow>
               (case cReadRequest C r (new (argsType methodSpec)) of
                  (Some errRead, args) \<Rightarrow> cWriteError C r w StatusBadRequest errRead
                | (None, args) \<Rightarrow>
                   (let reply = new (replyType methodSpec);
                        (reply', errInter) = hcall (methodVal methodSpec) r args reply;
                        w' = Header_Set L w ''x-content-type-options'' ''nosniff''
                    in case errInter of
                         None \<Rightarrow> cWriteResponse C r w' reply'
                       | Some errResult \<Rightarrow> cWriteError C r w' StatusBadRequest errResult)))))"

subsection \<open>Identifier stores\<close>

text \<open>An identifier is an \<^verbatim>\<open>interface{}\<close>; the default store issues \<^verbatim>\<open>uint64\<close> values.\<close>

datatype goid = UInt64 "64 word" | OtherId string

record defaultIDStore =
  curr :: "64 word"

record defaultIDSession =
  sid :: "64 word"

definition DefaultIDStore :: defaultIDStore where
  "DefaultIDStore = \<lparr>curr = 0\<rparr>"

text \<open>\<^verbatim>\<open>atomic.AddUint64\<close> adds, wrapping around, and returns the new value.\<close>

definition defaultIDStore_New ::
  "defaultIDStore \<Rightarrow> (defaultIDSession \<times> goerror option) \<times> defaultIDStore" where
  "defaultIDStore_New store = (let i = curr store + 1 in ((\<lparr>sid = i\<rparr>, None), store\<lparr>curr := i\<rparr>))"

definition defaultIDSession_ID :: "defaultIDSession \<Rightarrow> goid" where
  "defaultIDSession_ID session = UInt64 (sid session)"

definition defaultIDSession_Close :: "defaultIDSession \<Rightarrow> goerror option" where
  "defaultIDSession_Close session = None"

text \<open>
  The interfaces. An \<^verbatim>\<open>IDSession\<close> is what its two methods answer; an \<^verbatim>\<open>IDStore\<close> is
  what \<^verbatim>\<open>New\<close> answers (a session or an error) and the store as it is afterwards.
\<close>

record IDSession =
  ID :: goid
  sessionClose :: "goerror option"

codatatype IDStore = IDStore (newResult: "goerror + IDSession") (newStore: IDStore)

definition asIDSession :: "defaultIDSession \<Rightarrow> IDSession" where
  "asIDSession session =
     \<lparr>ID = defaultIDSession_ID session, sessionClose = defaultIDSession_Close session\<rparr>"

primcorec asIDStore :: "defaultIDStore \<Rightarrow> IDStore" where
  "asIDStore store =
     IDStore
       (case fst (defaultIDStore_New store) of
          (session, None) \<Rightarrow> Inr (asIDSession session)
        | (session, Some err) \<Rightarrow> Inl err)
       (asIDStore (snd (defaultIDStore_New store)))"

subsection \<open>The caller\<close>

record 'p clientRequest =
  reqVersion :: string
  reqId :: goid
  reqMethod :: string
  reqParams :: 'p

text \<open>A nil pointer is \<open>None\<close>; a raw message is its bytes.\<close>

record clientResponse =
  respVersion :: string
  respResult :: "string option"
  respError :: "Error option"
  respId :: "string option"

text \<open>The response body, an \<^verbatim>\<open>io.ReadCloser\<close>: what it holds and what \<^verbatim>\<open>Close\<close> answers.\<close>

record ReadCloser =
  content :: string
  bodyClose :: "goerror option"

record Response =
  StatusCode :: int
  Body :: ReadCloser

text \<open>
  The package constant \<^verbatim>\<open>Version\<close> is declared outside the two files; encoding/json and
  net/http are the standard library: parameters. \<open>Decode\<close> is
  \<^verbatim>\<open>json.NewDecoder(r).Decode(&response)\<close> on a zero \<^verbatim>\<open>clientResponse\<close>; \<open>Unmarshal\<close>
  answers its error and the value it leaves behind the pointer. A transport answers a
  response or an error, never both, as the contract of \<^verbatim>\<open>http.RoundTripper\<close> has it, and
  a response has a body.
\<close>

record ('p, 'v) clientlib =
  Version :: string
  Marshal :: "'p clientRequest \<Rightarrow> goerror + string"
  NewRequest :: "string \<Rightarrow> string \<Rightarrow> string \<Rightarrow> goerror + Request"
  DefaultTransport :: "Request \<Rightarrow> goerror + Response"
  Decode :: "ReadCloser \<Rightarrow> goerror + clientResponse"
  Unmarshal :: "string \<Rightarrow> 'v \<Rightarrow> goerror option \<times> 'v"

definition EncodeCall :: "('p, 'v) clientlib \<Rightarrow> goid \<Rightarrow> string \<Rightarrow> 'p \<Rightarrow> goerror + string" where
  "EncodeCall E i name params =
     Marshal E \<lparr>reqVersion = Version E, reqId = i, reqMethod = name, reqParams = params\<rparr>"

definition DecodeReply ::
  "('p, 'v) clientlib \<Rightarrow> ReadCloser \<Rightarrow> 'v \<Rightarrow> goerror option result \<times> 'v" where
  "DecodeReply E r reply =
     (case Decode E r of
        Inl err \<Rightarrow> (Return (Some err), reply)
      | Inr response \<Rightarrow>
         (case respError response of
            Some fault \<Rightarrow> (Return (Some (Fault fault)), reply)
          | None \<Rightarrow>
             (case respResult response of
                None \<Rightarrow> (Panic ''invalid memory address or nil pointer dereference'', reply)
              | Some raw \<Rightarrow>
                 (case Unmarshal E raw reply of (err, reply') \<Rightarrow> (Return err, reply')))))"

datatype closer = ofSession IDSession | ofBody ReadCloser

fun Close :: "closer \<Rightarrow> goerror option" where
  "Close (ofSession session) = sessionClose session"
| "Close (ofBody body) = bodyClose body"

text \<open>\<open>checkClose\<close> on the error variable; the list records the closers closed so far.\<close>

definition checkClose :: "goerror option \<Rightarrow> closer \<Rightarrow> closer list \<Rightarrow> goerror option \<times> closer list" where
  "checkClose err c closed =
     (let e = Close c in (if e \<noteq> None \<and> err = None then e else err, closed @ [c]))"

text \<open>
  \<^verbatim>\<open>defer checkClose(&err, c)\<close> around the rest of the function: it runs when the rest
  returns, on the named result, and also when the rest panics, the panic going on after it.
\<close>

definition deferCheckClose ::
  "closer \<Rightarrow> goerror option result \<times> 'v \<times> closer list \<Rightarrow> goerror option result \<times> 'v \<times> closer list" where
  "deferCheckClose c rest =
     (case rest of
        (Return err, reply, closed) \<Rightarrow>
          (case checkClose err c closed of (err', closed') \<Rightarrow> (Return err', reply, closed'))
      | (Panic msg, reply, closed) \<Rightarrow> (Panic msg, reply, snd (checkClose None c closed)))"

record Client =
  cIDStore :: "IDStore option"
  Base :: "(Request \<Rightarrow> goerror + Response) option"

text \<open>The lazy initialisation at the head of \<open>Call\<close>.\<close>

definition storeOf :: "Client \<Rightarrow> IDStore" where
  "storeOf client = (case cIDStore client of None \<Rightarrow> asIDStore DefaultIDStore | Some store \<Rightarrow> store)"

definition baseOf :: "('p, 'v) clientlib \<Rightarrow> Client \<Rightarrow> Request \<Rightarrow> goerror + Response" where
  "baseOf E client = (case Base client of None \<Rightarrow> DefaultTransport E | Some base \<Rightarrow> base)"

text \<open>
  \<open>Call\<close> answers what it returns (or that it panicked), the reply value, the closers it
  closed, in order, and the client as it is afterwards. \<^verbatim>\<open>WithContext\<close> panics on a nil
  context.
\<close>

definition Call ::
  "('p, 'v) clientlib \<Rightarrow> Client \<Rightarrow> ctx option \<Rightarrow> string \<Rightarrow> string \<Rightarrow> 'p \<Rightarrow> 'v \<Rightarrow>
   (goerror option result \<times> 'v \<times> closer list) \<times> Client" where
  "Call E client ctx url name params reply =
     (let store = storeOf client;
          base = baseOf E client;
          client' = \<lparr>cIDStore = Some (newStore store), Base = Some base\<rparr>
      in case newResult store of
           Inl err \<Rightarrow> ((Return (Some err), reply, []), client')
         | Inr idSession \<Rightarrow>
            (deferCheckClose (ofSession idSession)
              (case EncodeCall E (ID idSession) name params of
                 Inl err \<Rightarrow> (Return (Some err), reply, [])
               | Inr body \<Rightarrow>
                  (case NewRequest E ''POST'' url body of
                     Inl err \<Rightarrow> (Return (Some err), reply, [])
                   | Inr req \<Rightarrow>
                      (case ctx of
                         None \<Rightarrow> (Panic ''nil context'', reply, [])
                       | Some c \<Rightarrow>
                          (case base (req\<lparr>rContext := Some c\<rparr>) of
                             Inl err \<Rightarrow> (Return (Some err), reply, [])
                           | Inr resp \<Rightarrow>
                              deferCheckClose (ofBody (Body resp))
                                (case DecodeReply E (Body resp) reply of
                                   (out, reply') \<Rightarrow> (out, reply', [])))))),
             client'))"

subsection \<open>Notions of the specification\<close>

text \<open>
  A valid handler, in the words of the specification: it is publicly visible, which for a
  Go function is that the identifier it was declared under is exported; it takes exactly
  three inputs, a pointer to the request and two pointers to exported or built-in types;
  and it returns exactly one output, of type \<^verbatim>\<open>error\<close>.
\<close>

definition publicly_visible :: "golib \<Rightarrow> 'v handler \<Rightarrow> bool" where
  "publicly_visible L h = isExported L (hname h)"

definition valid_handler :: "golib \<Rightarrow> 'v handler \<Rightarrow> bool" where
  "valid_handler L h =
     (publicly_visible L h \<and>
      (case FuncSig (htype h) of
         None \<Rightarrow> False
       | Some (is, os) \<Rightarrow>
           length is = 3 \<and>
           Kind (is ! 0) = Ptr \<and> Elem (is ! 0) = Some typeOfRequest \<and>
           Kind (is ! 1) = Ptr \<and> isExportedOrBuiltin L (is ! 1) \<and>
           Kind (is ! 2) = Ptr \<and> isExportedOrBuiltin L (is ! 2) \<and>
           os = [typeOfError]))"

text \<open>
  A function type that breaks one of the signature rules: the number of inputs is not
  three, the first input is not a pointer to \<^verbatim>\<open>http.Request\<close>, the second or the third
  is not a pointer to an exported or built-in type, the number of outputs is not one, or
  the output is not \<^verbatim>\<open>error\<close>.
\<close>

definition violates_signature :: "golib \<Rightarrow> rtype \<Rightarrow> bool" where
  "violates_signature L t =
     (case FuncSig t of
        None \<Rightarrow> False
      | Some (is, os) \<Rightarrow>
          length is \<noteq> 3 \<or>
          \<not> (Kind (is ! 0) = Ptr \<and> Elem (is ! 0) = Some typeOfRequest) \<or>
          \<not> (Kind (is ! 1) = Ptr \<and> isExportedOrBuiltin L (is ! 1)) \<or>
          \<not> (Kind (is ! 2) = Ptr \<and> isExportedOrBuiltin L (is ! 2)) \<or>
          length os \<noteq> 1 \<or> os ! 0 \<noteq> typeOfError)"

text \<open>A sequence of \<open>Register\<close> calls, whatever each of them answers.\<close>

fun Registers :: "golib \<Rightarrow> 'v Server \<Rightarrow> (string \<times> 'v handler option) list \<Rightarrow> 'v Server" where
  "Registers L s [] = s"
| "Registers L s ((name, handler) # calls) = Registers L (snd (Register L s name handler)) calls"

text \<open>The first failure of a list of results, in order; \<open>None\<close> when none failed.\<close>

fun firstFailure :: "goerror option list \<Rightarrow> goerror option" where
  "firstFailure [] = None"
| "firstFailure (Some e # rest) = Some e"
| "firstFailure (None # rest) = firstFailure rest"

text \<open>
  The identifiers of \<open>n\<close> successive \<^verbatim>\<open>New\<close> calls on a default store, in order, and
  the store after them.
\<close>

fun News :: "defaultIDStore \<Rightarrow> nat \<Rightarrow> 64 word list \<times> defaultIDStore" where
  "News store 0 = ([], store)"
| "News store (Suc n) =
     (case defaultIDStore_New store of
        ((session, err), store') \<Rightarrow>
          (case News store' n of (ids, store'') \<Rightarrow> (sid session # ids, store'')))"

subsection \<open>Concrete values for the examples\<close>

text \<open>
  The canonical form of a header key made of letters, digits and hyphens: the first
  letter and every letter after a hyphen in upper case, the others in lower case.
\<close>

definition swapCase :: "string \<Rightarrow> string \<Rightarrow> char \<Rightarrow> char" where
  "swapCase from to c = (case map_of (zip from to) c of None \<Rightarrow> c | Some c' \<Rightarrow> c')"

fun canonicalKey :: "bool \<Rightarrow> string \<Rightarrow> string" where
  "canonicalKey upper [] = []"
| "canonicalKey upper (c # cs) =
     (if upper then swapCase ''abcdefghijklmnopqrstuvwxyz'' ''ABCDEFGHIJKLMNOPQRSTUVWXYZ'' c
      else swapCase ''ABCDEFGHIJKLMNOPQRSTUVWXYZ'' ''abcdefghijklmnopqrstuvwxyz'' c)
     # canonicalKey (c = CHR ''-'') cs"

text \<open>
  The library on ASCII names and keys: the first rune of a name is its first byte,
  \<^verbatim>\<open>RuneError\<close> for the empty string, and the upper-case runes are \<open>A\<close> to \<open>Z\<close>.
\<close>

definition asciiLib :: golib where
  "asciiLib =
     \<lparr>DecodeRuneInString = (\<lambda>s. case s of [] \<Rightarrow> (65533, 0) | c # _ \<Rightarrow> (of_char c, 1)),
      IsUpper = (\<lambda>r. 65 \<le> r \<and> r \<le> 90),
      CanonicalMIMEHeaderKey = canonicalKey True\<rparr>"

definition ptrTo :: "rtype \<Rightarrow> rtype" where
  "ptrTo t = RType '''' '''' (Pointer t)"

definition typeArgs :: rtype where
  "typeArgs = RType ''Args'' ''main'' (Plain Struct)"

definition typeReply :: rtype where
  "typeReply = RType ''Reply'' ''main'' (Plain Struct)"

text \<open>\<^verbatim>\<open>func(*http.Request, *Args, *Reply) error\<close>, the type of a declared function.\<close>

definition typeHandler :: rtype where
  "typeHandler =
     RType '''' '''' (Function [ptrTo typeOfRequest, ptrTo typeArgs, ptrTo typeReply] [typeOfError])"

text \<open>
  \<^verbatim>\<open>func Echo(r *http.Request, args *Args, reply *Reply) error { *reply = Reply(*args); return nil }\<close>
  and the same function declared as \<^verbatim>\<open>echo\<close>.
\<close>

definition Echo :: "string handler" where
  "Echo = \<lparr>hname = ''Echo'', htype = typeHandler, hcall = (\<lambda>r args reply. (args, None))\<rparr>"

definition echo :: "string handler" where
  "echo = \<lparr>hname = ''echo'', htype = typeHandler, hcall = (\<lambda>r args reply. (args, None))\<rparr>"

text \<open>
  \<^verbatim>\<open>type HandlerFunc func(*http.Request, *Args, *Reply) error\<close> in package main, and the
  value \<^verbatim>\<open>HandlerFunc(Echo)\<close>.
\<close>

definition typeHandlerFunc :: rtype where
  "typeHandlerFunc =
     RType ''HandlerFunc'' ''main''
       (Function [ptrTo typeOfRequest, ptrTo typeArgs, ptrTo typeReply] [typeOfError])"

definition EchoFunc :: "string handler" where
  "EchoFunc =
     \<lparr>hname = ''Echo'', htype = typeHandlerFunc, hcall = (\<lambda>r args reply. (args, None))\<rparr>"

text \<open>
  \<^verbatim>\<open>type Hook func()\<close> and \<^verbatim>\<open>func Ping() {}\<close> in package main, and the value
  \<^verbatim>\<open>Hook(Ping)\<close>.
\<close>

definition typeHook :: rtype where
  "typeHook = RType ''Hook'' ''main'' (Function [] [])"

definition Ping :: "string handler" where
  "Ping = \<lparr>hname = ''Ping'', htype = typeHook, hcall = (\<lambda>r args reply. (reply, None))\<rparr>"

definition emptyServer :: "string Server" where
  "emptyServer = \<lparr>methods = None\<rparr>"

text \<open>\<^verbatim>\<open>func(*http.Request, *Args) error\<close>, one input short.\<close>

definition twoInputs :: "string handler" where
  "twoInputs =
     \<lparr>hname = ''Short'',
      htype = RType '''' '''' (Function [ptrTo typeOfRequest, ptrTo typeArgs] [typeOfError]),
      hcall = (\<lambda>r args reply. (reply, None))\<rparr>"

text \<open>A server with \<^verbatim>\<open>Echo\<close> registered, a fresh response writer and two requests.\<close>

definition echoServer :: "string Server" where
  "echoServer =
     \<lparr>methods = Some (Map.empty(''Echo'' \<mapsto>
        \<lparr>methodVal = Echo, argsType = typeArgs, replyType = typeReply\<rparr>))\<rparr>"

definition freshWriter :: ResponseWriter where
  "freshWriter = \<lparr>header = Map.empty, wroteHeader = None, written = ''''\<rparr>"

definition getRequest :: Request where
  "getRequest = \<lparr>rMethod = ''GET'', rURL = ''/rpc'', rBody = '''', rContext = None\<rparr>"

definition postRequest :: Request where
  "postRequest = \<lparr>rMethod = ''POST'', rURL = ''/rpc'', rBody = ''Echo'', rContext = None\<rparr>"

text \<open>
  Stand-ins for the collaborators, for the examples only. The toy codec takes the body
  for the method name and for the arguments. The toy client library marshals a call to
  its method name, its transport echoes the request body, and its decoder reads the
  body \<open>fault\<close> as an envelope with an error, \<open>empty\<close> as an envelope with neither
  field, \<open>garbage\<close> as undecodable, and anything else as an envelope whose result is
  the body.
\<close>

definition toyCodec :: "string codec" where
  "toyCodec =
     \<lparr>cMethod = (\<lambda>r. Inr (rBody r)),
      cReadRequest = (\<lambda>r args. (None, rBody r)),
      cWriteResponse = (\<lambda>r w reply. Fprint w reply),
      cWriteError = (\<lambda>r w status err. Fprint (WriteHeader w status) ''error'')\<rparr>"

definition toyNew :: "rtype \<Rightarrow> string" where
  "toyNew t = ''''"

definition toyDecode :: "ReadCloser \<Rightarrow> goerror + clientResponse" where
  "toyDecode r =
     (if content r = ''garbage'' then Inl (Foreign ''invalid character'')
      else if content r = ''fault''
      then Inr \<lparr>respVersion = ''1.0'', respResult = None, respError = Some (Error ''boom''),
                respId = None\<rparr>
      else if content r = ''empty''
      then Inr \<lparr>respVersion = ''1.0'', respResult = None, respError = None, respId = None\<rparr>
      else Inr \<lparr>respVersion = ''1.0'', respResult = Some (content r), respError = None,
                respId = None\<rparr>)"

definition toyLib :: "(string, string) clientlib" where
  "toyLib =
     \<lparr>Version = ''1.0'',
      Marshal = (\<lambda>req. Inr (reqMethod req)),
      NewRequest = (\<lambda>m url body. Inr \<lparr>rMethod = m, rURL = url, rBody = body, rContext = None\<rparr>),
      DefaultTransport = (\<lambda>req. Inr \<lparr>StatusCode = 200, Body = \<lparr>content = rBody req, bodyClose = None\<rparr>\<rparr>),
      Decode = toyDecode,
      Unmarshal = (\<lambda>raw reply. (None, raw))\<rparr>"

text \<open>
  A store whose sessions fail to close, a transport whose bodies fail to close, and a
  client made of the two; and two clients left to their defaults.
\<close>

definition leakySession :: IDSession where
  "leakySession = \<lparr>ID = OtherId ''trace-7'', sessionClose = Some (Foreign ''session close failed'')\<rparr>"

primcorec leakyStore :: IDStore where
  "leakyStore = IDStore (Inr leakySession) leakyStore"

definition leakyBody :: "string \<Rightarrow> ReadCloser" where
  "leakyBody s = \<lparr>content = s, bodyClose = Some (Foreign ''body close failed'')\<rparr>"

definition leakyTransport :: "Request \<Rightarrow> goerror + Response" where
  "leakyTransport req = Inr \<lparr>StatusCode = 500, Body = leakyBody (rBody req)\<rparr>"

definition leakyClient :: Client where
  "leakyClient = \<lparr>cIDStore = Some leakyStore, Base = Some leakyTransport\<rparr>"

definition clientA :: Client where
  "clientA = \<lparr>cIDStore = None, Base = None\<rparr>"

definition clientB :: Client where
  "clientB = \<lparr>cIDStore = None, Base = Some leakyTransport\<rparr>"

section \<open>Properties\<close>

subsection \<open>Registration\<close>

lemma Kind_Ptr_Elem: "Kind t = Ptr \<Longrightarrow> \<exists>e. Elem t = Some e"
  by (cases t rule: Kind.cases) auto

text \<open>A call of \<open>Register\<close> leaves the server as it is or adds one entry under a free name.\<close>

lemma Register_keeps_or_adds:
  "snd (Register L s n h) = s \<or>
   (\<exists>spec. get s n = Inl (Errorf ''rpc: can't find method %q'' [n]) \<and>
      snd (Register L s n h) =
        s\<lparr>methods := Some ((case methods s of None \<Rightarrow> Map.empty | Some m \<Rightarrow> m)(n \<mapsto> spec))\<rparr>)"
  by (auto simp: Register_def get_def Let_def split: option.splits prod.splits)

lemma get_after_Register:
  "get s name = Inr d \<Longrightarrow> get (snd (Register L s n h)) name = Inr d"
  using Register_keeps_or_adds [of L s n h]
  by (auto simp: get_def split: option.splits if_splits)

lemma get_after_Registers:
  "get s name = Inr d \<Longrightarrow> get (Registers L s calls) name = Inr d"
  by (induction calls arbitrary: s) (auto simp: get_after_Register)

text \<open>
  On a bound name \<open>Register\<close> never succeeds, whatever the handler, and leaves the server
  as it is.
\<close>

lemma Register_on_bound_name:
  "get s name = Inr d \<Longrightarrow>
   fst (Register L s name h) \<noteq> Return None \<and> snd (Register L s name h) = s"
  by (auto simp: Register_def get_def Let_def split: option.splits prod.splits)

text \<open>The check of the package path of the handler's type comes first.\<close>

lemma Register_package_path:
  "PkgPath (htype h) \<noteq> '''' \<Longrightarrow>
   Register L s name (Some h) = (Return (Some ErrHandlerNotExported), s)"
  by (simp add: Register_def)

text \<open>
  A handler whose type has an empty package path and the right signature is inserted
  under a free name, and told ``already defined'' under a bound one; with a function type
  that breaks a signature rule it is told so.
\<close>

lemma Register_plain_unbound:
  "valid_handler L h \<Longrightarrow> PkgPath (htype h) = '''' \<Longrightarrow> get s name = Inl e \<Longrightarrow>
   \<exists>s1 d. Register L s name (Some h) = (Return None, s1) \<and> get s1 name = Inr d \<and>
     methodVal d = h \<and>
     (\<exists>is os. FuncSig (htype h) = Some (is, os) \<and>
        Elem (is ! 1) = Some (argsType d) \<and> Elem (is ! 2) = Some (replyType d))"
  by (auto simp: valid_handler_def Register_def get_def Let_def
      split: option.splits prod.splits dest: Kind_Ptr_Elem)

lemma Register_plain_bound:
  "valid_handler L h \<Longrightarrow> PkgPath (htype h) = '''' \<Longrightarrow> get s name = Inr d \<Longrightarrow>
   Register L s name (Some h) =
     (Return (Some (Errorf ''rpc: method already defined: %s'' [name])), s)"
  by (auto simp: valid_handler_def Register_def get_def Let_def
      split: option.splits prod.splits dest: Kind_Ptr_Elem)

lemma Register_plain_signature:
  "violates_signature L (htype h) \<Longrightarrow> PkgPath (htype h) = '''' \<Longrightarrow>
   Register L s name (Some h) = (Return (Some ErrHandlerSignature), s)"
  by (auto simp: violates_signature_def Register_def Let_def split: option.splits prod.splits)

text \<open>The type \<^verbatim>\<open>func(*http.Request, *Args) error\<close> has two inputs.\<close>

lemma Register_twoInputs:
  "Register asciiLib emptyServer ''Short'' (Some twoInputs) =
     (Return (Some ErrHandlerSignature), emptyServer)"
  by (rule Register_plain_signature) (simp_all add: violates_signature_def twoInputs_def)

lemma get_emptyServer: "get emptyServer name = Inl (Errorf ''rpc: can't find method %q'' [name])"
  by (simp add: get_def emptyServer_def)

text \<open>
  C1. The claim fails on the code. The exported function \<^verbatim>\<open>Echo\<close>, converted to the
  exported type \<^verbatim>\<open>HandlerFunc\<close>, is a valid handler, and the name is free; yet the first
  \<open>Register\<close> answers the ``not exported'' error and binds nothing. The check at line 42
  reads the package path of the handler's type, which is not empty for a defined type,
  exported or not.
\<close>

theorem Register_rejects_valid_handler:
  "valid_handler asciiLib EchoFunc \<and>
   isExported asciiLib (Name (htype EchoFunc)) \<and>
   get emptyServer ''Echo'' = Inl (Errorf ''rpc: can't find method %q'' [''Echo'']) \<and>
   Register asciiLib emptyServer ''Echo'' (Some EchoFunc) =
     (Return (Some ErrHandlerNotExported), emptyServer)"
  by (simp add: valid_handler_def publicly_visible_def EchoFunc_def typeHandlerFunc_def ptrTo_def typeOfRequest_def
      typeArgs_def typeReply_def isExportedOrBuiltin_def isExported_def asciiLib_def
      typeOfError_def Register_def get_emptyServer)

text \<open>After that call the name is still not bound.\<close>

theorem Register_rejects_valid_handler_witness:
  "get (snd (Register asciiLib emptyServer ''Echo'' (Some EchoFunc))) ''Echo'' =
     Inl (Errorf ''rpc: can't find method %q'' [''Echo''])"
  using Register_rejects_valid_handler by (simp add: get_emptyServer)

text \<open>
  C2. The claim fails on the code. The exported function \<^verbatim>\<open>Ping\<close>, converted to the
  exported type \<^verbatim>\<open>Hook\<close>, breaks the signature rules (no input, no output), and
  \<open>Register\<close> answers the ``not exported'' error, not the signature error: the check at
  line 42 takes the package path of the defined type for a lack of visibility, before any
  signature check. The server is left as it is.
\<close>

theorem Register_signature_told_not_exported:
  "isExported asciiLib (hname Ping) \<and>
   isExported asciiLib (Name (htype Ping)) \<and>
   violates_signature asciiLib (htype Ping) \<and>
   Register asciiLib emptyServer ''Ping'' (Some Ping) =
     (Return (Some ErrHandlerNotExported), emptyServer)"
  by (simp add: violates_signature_def Ping_def typeHook_def Register_def isExported_def
      asciiLib_def)

theorem Register_signature_told_not_exported_witness:
  "fst (Register asciiLib emptyServer ''Ping'' (Some Ping)) \<noteq> Return (Some ErrHandlerSignature)"
  using Register_signature_told_not_exported by simp

text \<open>
  What \<open>Register\<close> answers does not depend on the identifier a handler was declared
  under: only the type of the handler is inspected.
\<close>

lemma Register_ignores_identifier:
  "fst (Register L s name (Some (h\<lparr>hname := n\<rparr>))) = fst (Register L s name (Some h))"
  by (simp add: Register_def Let_def split: option.splits prod.splits)

text \<open>
  C5. The function \<^verbatim>\<open>echo\<close> is not exported, and \<open>Register\<close> accepts it: the only
  visibility check reads the package path of the handler's type, which is empty for the
  type of every declared function.
\<close>

theorem Register_accepts_unexported:
  "\<not> isExported asciiLib (hname echo) \<and>
   Register asciiLib emptyServer ''echo'' (Some echo) =
     (Return None,
      \<lparr>methods = Some (Map.empty(''echo'' \<mapsto>
         \<lparr>methodVal = echo, argsType = typeArgs, replyType = typeReply\<rparr>))\<rparr>)"
  by (simp add: Register_def echo_def typeHandler_def ptrTo_def typeOfRequest_def typeArgs_def
      typeReply_def isExportedOrBuiltin_def isExported_def asciiLib_def typeOfError_def
      emptyServer_def)

text \<open>After that registration the dispatcher resolves the name to the unexported function.\<close>

theorem Register_accepts_unexported_witness:
  "get (snd (Register asciiLib emptyServer ''echo'' (Some echo))) ''echo'' =
     Inr \<lparr>methodVal = echo, argsType = typeArgs, replyType = typeReply\<rparr>"
  using Register_accepts_unexported by (simp add: get_def)

subsection \<open>Dispatch\<close>

lemma WriteError_fresh:
  "wroteHeader w = None \<Longrightarrow>
   WriteError L w status msg =
     w\<lparr>header := (header w)(CanonicalMIMEHeaderKey L ''Content-Type'' \<mapsto> [''text/plain; charset=utf-8'']),
       wroteHeader := Some (status, (header w)(CanonicalMIMEHeaderKey L ''Content-Type'' \<mapsto> [''text/plain; charset=utf-8''])),
       written := written w @ msg\<rparr>"
  by (simp add: WriteError_def Fprint_def WriteHeader_def Header_Set_def Let_def)

text \<open>
  C8. A request whose method is not POST is answered by \<open>WriteError\<close> with status 405
  and nothing else: the answer is the same whatever the registry, the codec and the
  allocator are. On a writer that has not sent its header yet, status 405 goes out with a
  plain-text content type, and the message is the body.
\<close>

theorem ServeHTTP_rejects_other_methods:
  assumes "rMethod r \<noteq> ''POST''"
  shows "ServeHTTP L C new s w r =
           WriteError L w StatusMethodNotAllowed (''rpc: POST method required, received '' @ rMethod r) \<and>
         ServeHTTP L C new s w r = ServeHTTP L C' new' s' w r \<and>
         (wroteHeader w = None \<longrightarrow>
            wroteHeader (ServeHTTP L C new s w r) =
              Some (405, (header w)(CanonicalMIMEHeaderKey L ''Content-Type'' \<mapsto> [''text/plain; charset=utf-8''])) \<and>
            written (ServeHTTP L C new s w r) =
              written w @ ''rpc: POST method required, received '' @ rMethod r)"
  using assms by (simp add: ServeHTTP_def WriteError_fresh StatusMethodNotAllowed_def)

text \<open>A GET request, answered in full.\<close>

theorem ServeHTTP_rejects_other_methods_witness:
  "rMethod getRequest \<noteq> ''POST'' \<and>
   ServeHTTP asciiLib toyCodec toyNew echoServer freshWriter getRequest =
     \<lparr>header = Map.empty(''Content-Type'' \<mapsto> [''text/plain; charset=utf-8'']),
      wroteHeader = Some (405, Map.empty(''Content-Type'' \<mapsto> [''text/plain; charset=utf-8''])),
      written = ''rpc: POST method required, received GET''\<rparr>"
proof -
  have m: "rMethod getRequest \<noteq> ''POST''"
    by (simp add: getRequest_def)
  have k: "CanonicalMIMEHeaderKey asciiLib ''Content-Type'' = ''Content-Type''"
    by (simp add: asciiLib_def swapCase_def)
  from ServeHTTP_rejects_other_methods [OF m, of asciiLib toyCodec toyNew echoServer freshWriter]
  have "ServeHTTP asciiLib toyCodec toyNew echoServer freshWriter getRequest =
           WriteError asciiLib freshWriter StatusMethodNotAllowed (''rpc: POST method required, received '' @ rMethod getRequest)"
    by blast
  with m k show ?thesis
    by (simp add: WriteError_fresh freshWriter_def StatusMethodNotAllowed_def getRequest_def)
qed

text \<open>
  C7 as stated fails on the method-not-allowed path: the headers that go out with the
  answer to a GET request hold the content type only.
\<close>

theorem ServeHTTP_nosniff_counterexample:
  "wroteHeader (ServeHTTP asciiLib toyCodec toyNew echoServer freshWriter getRequest) =
     Some (405, Map.empty(''Content-Type'' \<mapsto> [''text/plain; charset=utf-8''])) \<and>
   (Map.empty(''Content-Type'' \<mapsto> [''text/plain; charset=utf-8''])) (CanonicalMIMEHeaderKey asciiLib ''x-content-type-options'') = None \<and>
   header (ServeHTTP asciiLib toyCodec toyNew echoServer freshWriter getRequest)
     (CanonicalMIMEHeaderKey asciiLib ''x-content-type-options'') = None"
  by (simp add: ServeHTTP_def getRequest_def WriteError_fresh freshWriter_def asciiLib_def swapCase_def
      StatusMethodNotAllowed_def)

text \<open>
  C7, as amended. When the request is a POST, the codec finds the method name, the
  registry knows it and the arguments decode, the dispatcher calls the handler, sets the
  no-sniff header on a writer whose header has not been sent by the dispatcher, and only
  then asks the codec to write the reply or the handler's error. On the three paths that
  end earlier with the codec's \<open>cWriteError\<close>, the dispatcher hands the writer over as
  it received it.
\<close>

theorem ServeHTTP_nosniff:
  "(\<forall>name spec args reply' errInter.
      rMethod r = ''POST'' \<and> cMethod C r = Inr name \<and> get s name = Inr spec \<and>
      cReadRequest C r (new (argsType spec)) = (None, args) \<and>
      hcall (methodVal spec) r args (new (replyType spec)) = (reply', errInter) \<longrightarrow>
      header (Header_Set L w ''x-content-type-options'' ''nosniff'')
        (CanonicalMIMEHeaderKey L ''x-content-type-options'') = Some [''nosniff''] \<and>
      wroteHeader (Header_Set L w ''x-content-type-options'' ''nosniff'') = wroteHeader w \<and>
      ServeHTTP L C new s w r =
        (case errInter of
           None \<Rightarrow> cWriteResponse C r (Header_Set L w ''x-content-type-options'' ''nosniff'') reply'
         | Some errResult \<Rightarrow>
             cWriteError C r (Header_Set L w ''x-content-type-options'' ''nosniff'')
               StatusBadRequest errResult)) \<and>
   (\<forall>errMethod. rMethod r = ''POST'' \<and> cMethod C r = Inl errMethod \<longrightarrow>
      ServeHTTP L C new s w r = cWriteError C r w StatusBadRequest errMethod) \<and>
   (\<forall>name errGet. rMethod r = ''POST'' \<and> cMethod C r = Inr name \<and> get s name = Inl errGet \<longrightarrow>
      ServeHTTP L C new s w r = cWriteError C r w StatusBadRequest errGet) \<and>
   (\<forall>name spec errRead args.
      rMethod r = ''POST'' \<and> cMethod C r = Inr name \<and> get s name = Inr spec \<and>
      cReadRequest C r (new (argsType spec)) = (Some errRead, args) \<longrightarrow>
      ServeHTTP L C new s w r = cWriteError C r w StatusBadRequest errRead)"
  by (simp add: ServeHTTP_def Header_Set_def split: option.splits)

text \<open>A POST request for \<^verbatim>\<open>Echo\<close>.\<close>

theorem ServeHTTP_nosniff_witness:
  "ServeHTTP asciiLib toyCodec toyNew echoServer freshWriter postRequest =
     cWriteResponse toyCodec postRequest
       (Header_Set asciiLib freshWriter ''x-content-type-options'' ''nosniff'') ''Echo'' \<and>
   header (Header_Set asciiLib freshWriter ''x-content-type-options'' ''nosniff'')
     ''X-Content-Type-Options'' = Some [''nosniff'']"
proof -
  have k: "CanonicalMIMEHeaderKey asciiLib ''x-content-type-options'' = ''X-Content-Type-Options''"
    by (simp add: asciiLib_def swapCase_def)
  have 1: "rMethod postRequest = ''POST''" by (simp add: postRequest_def)
  have 2: "cMethod toyCodec postRequest = Inr ''Echo''" by (simp add: postRequest_def toyCodec_def)
  have 3: "get echoServer ''Echo'' = Inr \<lparr>methodVal = Echo, argsType = typeArgs, replyType = typeReply\<rparr>"
    by (simp add: get_def echoServer_def)
  have 4: "cReadRequest toyCodec postRequest (toyNew (argsType \<lparr>methodVal = Echo, argsType = typeArgs, replyType = typeReply\<rparr>)) = (None, ''Echo'')"
    by (simp add: toyCodec_def postRequest_def)
  have 5: "hcall (methodVal \<lparr>methodVal = Echo, argsType = typeArgs, replyType = typeReply\<rparr>) postRequest ''Echo''
      (toyNew (replyType \<lparr>methodVal = Echo, argsType = typeArgs, replyType = typeReply\<rparr>)) = (''Echo'', None)"
    by (simp add: Echo_def)
  from ServeHTTP_nosniff [of postRequest toyCodec echoServer toyNew asciiLib freshWriter] 1 2 3 4 5 k
  show ?thesis
    by (metis (no_types, lifting) option.simps(4))
qed

subsection \<open>The default identifier store\<close>

text \<open>The \<open>k\<close>-th call on a store adds \<open>k\<close> to its counter, modulo \<open>2 ^ 64\<close>.\<close>

lemma News_eq:
  "News store n = (map (\<lambda>k. curr store + of_nat (Suc k)) [0..<n], store\<lparr>curr := curr store + of_nat n\<rparr>)"
proof (induction n arbitrary: store)
  case 0
  then show ?case by simp
next
  case (Suc n)
  have "map (\<lambda>k. curr store + 1 + of_nat (Suc k)) [0..<n] = map (\<lambda>k. curr store + of_nat (Suc k)) [Suc 0..<Suc n]"
    by (simp add: map_Suc_upt [symmetric] del: upt_Suc add: ac_simps)
  then show ?case
    by (simp add: Suc defaultIDStore_New_def Let_def upt_conv_Cons ac_simps del: upt_Suc)
qed

lemma unat_issued:
  fixes c :: "64 word"
  assumes "unat c + m < 2 ^ 64"
  shows "unat (c + of_nat m) = unat c + m"
proof -
  have "m < 2 ^ 64" using assms by simp
  then have "unat (c + of_nat m) = (unat c + m) mod 2 ^ 64"
    by (simp add: unat_word_ariths unat_of_nat)
  with assms show ?thesis by simp
qed

lemma News_unat:
  assumes "unat (curr store) + n < 2 ^ 64"
  shows "map unat (fst (News store n)) = [unat (curr store) + 1 ..< unat (curr store) + n + 1]"
proof -
  have "map unat (fst (News store n)) = map (\<lambda>k. unat (curr store + of_nat (Suc k))) [0..<n]"
    by (simp add: News_eq del: of_nat_Suc)
  also have "\<dots> = map (\<lambda>k. k + (unat (curr store) + 1)) [0..<n]"
  proof (rule map_cong [OF refl])
    fix k assume "k \<in> set [0..<n]"
    then have "unat (curr store) + Suc k < 2 ^ 64" using assms by simp
    then have "unat (curr store + of_nat (Suc k)) = unat (curr store) + Suc k"
      by (rule unat_issued)
    then show "unat (curr store + of_nat (Suc k)) = k + (unat (curr store) + 1)"
      by simp
  qed
  also have "\<dots> = [unat (curr store) + 1 ..< unat (curr store) + n + 1]"
    by (simp only: map_add_upt) (simp add: ac_simps)
  finally show ?thesis .
qed

text \<open>
  C6, as amended. While the counter of a default store stays below \<open>2 ^ 64\<close>, the
  identifiers of successive \<^verbatim>\<open>New\<close> calls on it are the successors of the counter, one
  after the other: strictly increasing and pairwise distinct. \<^verbatim>\<open>New\<close> returns no error,
  and closing a session returns none either.
\<close>

theorem default_store_ids:
  assumes "unat (curr store) + n < 2 ^ 64"
  shows "map unat (fst (News store n)) = [unat (curr store) + 1 ..< unat (curr store) + n + 1] \<and>
         sorted_wrt (<) (map unat (fst (News store n))) \<and>
         distinct (fst (News store n)) \<and>
         snd (fst (defaultIDStore_New store)) = None \<and>
         defaultIDSession_Close session = None"
proof -
  note ids = News_unat [OF assms]
  have "sorted_wrt (<) (map unat (fst (News store n)))"
    unfolding ids by (rule sorted_wrt_upt)
  moreover have "distinct (map unat (fst (News store n)))"
    unfolding ids by (rule distinct_upt)
  then have "distinct (fst (News store n))"
    by (simp add: distinct_map)
  ultimately show ?thesis
    using ids by (simp add: defaultIDStore_New_def defaultIDSession_Close_def Let_def)
qed

text \<open>The first three identifiers of a fresh store.\<close>

theorem default_store_ids_witness:
  "map unat (fst (News DefaultIDStore 3)) = [1, 2, 3] \<and>
   distinct (fst (News DefaultIDStore 3)) \<and>
   defaultIDSession_Close \<lparr>sid = 1\<rparr> = None"
proof -
  have h: "unat (curr DefaultIDStore) + 3 < 2 ^ 64"
    by (simp add: DefaultIDStore_def)
  have "[unat (curr DefaultIDStore) + 1 ..< unat (curr DefaultIDStore) + 3 + 1] = [1, 2, 3]"
    by (simp add: DefaultIDStore_def upt_conv_Cons)
  with default_store_ids [OF h, of "\<lparr>sid = 1\<rparr>"] show ?thesis
    by simp
qed

lemma News_nth:
  "k < n \<Longrightarrow> fst (News store n) ! k = curr store + of_nat (Suc k)"
  by (simp add: News_eq)

text \<open>
  C6 as stated fails twice. Each client left to its defaults gets a store of its own,
  which starts at 1: two clients of one process issue the same identifier. And the
  counter wraps around: on a fresh store the call number \<open>2 ^ 64\<close> issues 0, below the
  1 of the first call.
\<close>

theorem default_store_counterexample:
  "newResult (storeOf clientA) = Inr \<lparr>ID = UInt64 1, sessionClose = None\<rparr> \<and>
   newResult (storeOf clientB) = Inr \<lparr>ID = UInt64 1, sessionClose = None\<rparr> \<and>
   fst (News DefaultIDStore (2 ^ 64)) ! 0 = 1 \<and>
   fst (News DefaultIDStore (2 ^ 64)) ! (2 ^ 64 - 1) = 0"
proof -
  have a: "newResult (storeOf clientA) = Inr \<lparr>ID = UInt64 1, sessionClose = None\<rparr>"
    by (simp add: storeOf_def clientA_def DefaultIDStore_def defaultIDStore_New_def
        asIDSession_def defaultIDSession_ID_def defaultIDSession_Close_def)
  have b: "newResult (storeOf clientB) = Inr \<lparr>ID = UInt64 1, sessionClose = None\<rparr>"
    by (simp add: storeOf_def clientB_def DefaultIDStore_def defaultIDStore_New_def
        asIDSession_def defaultIDSession_ID_def defaultIDSession_Close_def)
  have c: "fst (News DefaultIDStore (2 ^ 64)) ! 0 = 1"
    by (simp only: News_nth [of 0 "2 ^ 64"] zero_less_power zero_less_numeral)
      (simp add: DefaultIDStore_def)
  have "(2::nat) ^ 64 - 1 < 2 ^ 64" by simp
  then have "fst (News DefaultIDStore (2 ^ 64)) ! (2 ^ 64 - 1) =
      curr DefaultIDStore + of_nat (Suc (2 ^ 64 - 1))"
    by (rule News_nth)
  also have "Suc (2 ^ 64 - 1) = (2::nat) ^ 64" by simp
  also have "curr DefaultIDStore + of_nat (2 ^ 64) = (0 :: 64 word)"
    by (simp add: DefaultIDStore_def)
  finally have d: "fst (News DefaultIDStore (2 ^ 64)) ! (2 ^ 64 - 1) = 0" .
  from a b c d show ?thesis by blast
qed

subsection \<open>The caller\<close>

text \<open>A deferred \<open>checkClose\<close> closes its closer and keeps an earlier error.\<close>

lemma deferCheckClose_Return:
  "deferCheckClose c (Return err, reply, closed) =
     (Return (firstFailure [err, Close c]), reply, closed @ [c])"
  by (cases err; cases "Close c") (simp_all add: deferCheckClose_def checkClose_def)

lemma deferCheckClose_Panic:
  "deferCheckClose c (Panic msg, reply, closed) = (Panic msg, reply, closed @ [c])"
  by (simp add: deferCheckClose_def checkClose_def Let_def)

lemma firstFailure_two:
  "firstFailure [firstFailure [a, b], c] = firstFailure [a, b, c]"
  by (cases a; cases b) simp_all

text \<open>Once the transport has answered, \<open>Call\<close> is the decoding under the two deferred closes.\<close>

lemma Call_after_response:
  assumes "newResult (storeOf client) = Inr session"
    and "EncodeCall E (ID session) name params = Inr body"
    and "NewRequest E ''POST'' url body = Inr req"
    and "baseOf E client (req\<lparr>rContext := Some c\<rparr>) = Inr resp"
  shows "fst (Call E client (Some c) url name params reply) =
     deferCheckClose (ofSession session)
       (deferCheckClose (ofBody (Body resp))
          (fst (DecodeReply E (Body resp) reply), snd (DecodeReply E (Body resp) reply), []))"
  using assms by (simp add: Call_def Let_def split: prod.splits)

lemma Call_after_reply:
  assumes "newResult (storeOf client) = Inr session"
    and "EncodeCall E (ID session) name params = Inr body"
    and "NewRequest E ''POST'' url body = Inr req"
    and "baseOf E client (req\<lparr>rContext := Some c\<rparr>) = Inr resp"
    and "DecodeReply E (Body resp) reply = (Return err, reply')"
  shows "fst (Call E client (Some c) url name params reply) =
     (Return (firstFailure [err, bodyClose (Body resp), sessionClose session]), reply',
      [ofBody (Body resp), ofSession session])"
  by (simp add: Call_after_response [OF assms(1-4)] assms(5) deferCheckClose_Return firstFailure_two)

text \<open>Of what the transport returns, \<open>Call\<close> reads the error or the body, nothing else.\<close>

lemma Call_same_bodies:
  assumes "\<And>rq. map_sum id Body (b1 rq) = map_sum id Body (b2 rq)"
  shows "fst (Call E (client\<lparr>Base := Some b1\<rparr>) ctx url name params reply) =
         fst (Call E (client\<lparr>Base := Some b2\<rparr>) ctx url name params reply)"
proof -
  define K where "K = (\<lambda>x. case x of
      Inl err \<Rightarrow> (Return (Some err), reply, [])
    | Inr bd \<Rightarrow> deferCheckClose (ofBody bd)
        (case DecodeReply E bd reply of (out, reply') \<Rightarrow> (out, reply', [])))"
  have K: "(case b rq of
              Inl err \<Rightarrow> (Return (Some err), reply, [])
            | Inr resp \<Rightarrow> deferCheckClose (ofBody (Body resp))
                (case DecodeReply E (Body resp) reply of (out, reply') \<Rightarrow> (out, reply', []))) =
           K (map_sum id Body (b rq))" for b :: "Request \<Rightarrow> goerror + Response" and rq
    by (cases "b rq") (simp_all add: K_def)
  have s: "storeOf (client\<lparr>Base := Some b1\<rparr>) = storeOf (client\<lparr>Base := Some b2\<rparr>)"
    by (simp add: storeOf_def)
  have b: "baseOf E (client\<lparr>Base := Some b1\<rparr>) = b1" "baseOf E (client\<lparr>Base := Some b2\<rparr>) = b2"
    by (simp_all add: baseOf_def)
  show ?thesis
    unfolding Call_def Let_def s b K assms by (simp split: sum.splits)
qed

lemma Call_Base_default:
  "fst (Call E (client\<lparr>Base := Some (baseOf E client)\<rparr>) ctx url name params reply) =
   fst (Call E client ctx url name params reply)"
  by (simp add: Call_def Let_def storeOf_def baseOf_def split: sum.splits)

text \<open>
  Let \<open>Call\<close> get a session, encode the call, build the request and receive a response
  whose body decodes to an envelope. If the envelope has an error, \<open>Call\<close> returns that
  fault and the reply value is the one it was given. If it has no error and has a
  result, the reply value is what unmarshalling the result into it leaves, and the error
  returned is the first of: the unmarshalling error, the error of closing the body, the
  error of closing the session. And a transport that differs in nothing but what its
  responses hold besides the body (such as the status code) gives the same outcome.
\<close>

lemma Call_answers_from_body:
  assumes "newResult (storeOf client) = Inr session"
    and "EncodeCall E (ID session) name params = Inr body"
    and "NewRequest E ''POST'' url body = Inr req"
    and "baseOf E client (req\<lparr>rContext := Some c\<rparr>) = Inr resp"
    and "Decode E (Body resp) = Inr envelope"
  shows "(\<forall>fault. respError envelope = Some fault \<longrightarrow>
            fst (Call E client (Some c) url name params reply) =
              (Return (Some (Fault fault)), reply, [ofBody (Body resp), ofSession session])) \<and>
         (\<forall>raw. respError envelope = None \<and> respResult envelope = Some raw \<longrightarrow>
            fst (Call E client (Some c) url name params reply) =
              (Return (firstFailure [fst (Unmarshal E raw reply), bodyClose (Body resp),
                                     sessionClose session]),
               snd (Unmarshal E raw reply), [ofBody (Body resp), ofSession session])) \<and>
         (\<forall>base' :: Request \<Rightarrow> goerror + Response.
            (\<forall>rq. map_sum id Body (base' rq) = map_sum id Body (baseOf E client rq)) \<longrightarrow>
            fst (Call E (client\<lparr>Base := Some base'\<rparr>) (Some c) url name params reply) =
            fst (Call E client (Some c) url name params reply))"
proof (intro conjI allI impI)
  fix fault assume "respError envelope = Some fault"
  then have "DecodeReply E (Body resp) reply = (Return (Some (Fault fault)), reply)"
    using assms(5) by (simp add: DecodeReply_def)
  from Call_after_reply [OF assms(1-4) this]
  show "fst (Call E client (Some c) url name params reply) =
          (Return (Some (Fault fault)), reply, [ofBody (Body resp), ofSession session])"
    by simp
next
  fix raw assume "respError envelope = None \<and> respResult envelope = Some raw"
  then have "DecodeReply E (Body resp) reply =
      (Return (fst (Unmarshal E raw reply)), snd (Unmarshal E raw reply))"
    using assms(5) by (simp add: DecodeReply_def split: prod.splits)
  from Call_after_reply [OF assms(1-4) this]
  show "fst (Call E client (Some c) url name params reply) =
          (Return (firstFailure [fst (Unmarshal E raw reply), bodyClose (Body resp),
                                 sessionClose session]),
           snd (Unmarshal E raw reply), [ofBody (Body resp), ofSession session])" .
next
  fix base' :: "Request \<Rightarrow> goerror + Response"
  assume "\<forall>rq. map_sum id Body (base' rq) = map_sum id Body (baseOf E client rq)"
  then have "fst (Call E (client\<lparr>Base := Some base'\<rparr>) (Some c) url name params reply) =
             fst (Call E (client\<lparr>Base := Some (baseOf E client)\<rparr>) (Some c) url name params reply)"
    by (intro Call_same_bodies) simp
  then show "fst (Call E (client\<lparr>Base := Some base'\<rparr>) (Some c) url name params reply) =
             fst (Call E client (Some c) url name params reply)"
    by (simp add: Call_Base_default)
qed

text \<open>The steps of a call through the client whose closers fail.\<close>

lemma leaky_session: "newResult (storeOf leakyClient) = Inr leakySession"
  by (simp add: storeOf_def leakyClient_def)

lemma leaky_reach:
  "EncodeCall toyLib (ID leakySession) name ''params'' = Inr name"
  "NewRequest toyLib ''POST'' ''http://peer/rpc'' name =
     Inr \<lparr>rMethod = ''POST'', rURL = ''http://peer/rpc'', rBody = name, rContext = None\<rparr>"
  "baseOf toyLib leakyClient
     (\<lparr>rMethod = ''POST'', rURL = ''http://peer/rpc'', rBody = name, rContext = None\<rparr>
        \<lparr>rContext := Some (Context 0)\<rparr>) =
     Inr \<lparr>StatusCode = 500, Body = leakyBody name\<rparr>"
  by (simp_all add: storeOf_def leakyClient_def EncodeCall_def toyLib_def baseOf_def
      leakyTransport_def)

text \<open>A response with status 500 whose body holds an error: the fault is returned.\<close>

lemma Call_returns_fault:
  "fst (Call toyLib leakyClient (Some (Context 0)) ''http://peer/rpc'' ''fault'' ''params'' ''before'') =
     (Return (Some (Fault (Error ''boom''))), ''before'',
      [ofBody (leakyBody ''fault''), ofSession leakySession])"
proof -
  have d: "Decode toyLib (Body \<lparr>StatusCode = 500, Body = leakyBody ''fault''\<rparr>) =
      Inr \<lparr>respVersion = ''1.0'', respResult = None, respError = Some (Error ''boom''),
           respId = None\<rparr>"
    by (simp add: toyLib_def toyDecode_def leakyBody_def)
  from Call_answers_from_body [OF leaky_session leaky_reach d, of "''before''"] show ?thesis
    by simp
qed

text \<open>
  C3. The claim fails on the code. Let \<open>Call\<close> get a session, encode the call, build
  the request and receive a response whose body decodes to an envelope with no error and
  no result, as the body \<^verbatim>\<open>{"jsonrpc":"1.0","result":null,"error":null,"id":1}\<close> does
  (a JSON null leaves a pointer field nil). The error is absent, and the result is not
  deserialized into the reply: line 106 dereferences the nil result pointer and \<open>Call\<close>
  panics, after its two deferred closes.
\<close>

theorem Call_panics_without_result:
  assumes "newResult (storeOf client) = Inr session"
    and "EncodeCall E (ID session) name params = Inr body"
    and "NewRequest E ''POST'' url body = Inr req"
    and "baseOf E client (req\<lparr>rContext := Some c\<rparr>) = Inr resp"
    and "Decode E (Body resp) = Inr envelope"
    and "respError envelope = None"
    and "respResult envelope = None"
  shows "fst (Call E client (Some c) url name params reply) =
           (Panic ''invalid memory address or nil pointer dereference'', reply,
            [ofBody (Body resp), ofSession session])"
proof -
  have "DecodeReply E (Body resp) reply =
          (Panic ''invalid memory address or nil pointer dereference'', reply)"
    using assms(5-7) by (simp add: DecodeReply_def)
  then show ?thesis
    by (simp add: Call_after_response [OF assms(1-4)] deferCheckClose_Panic)
qed

text \<open>A response with status 200 whose body holds neither an error nor a result.\<close>

theorem Call_panics_without_result_witness:
  "fst (Call toyLib clientA (Some (Context 0)) ''http://peer/rpc'' ''empty'' ''params'' ''before'') =
     (Panic ''invalid memory address or nil pointer dereference'', ''before'',
      [ofBody \<lparr>content = ''empty'', bodyClose = None\<rparr>,
       ofSession \<lparr>ID = UInt64 1, sessionClose = None\<rparr>])"
proof -
  let ?req = "\<lparr>rMethod = ''POST'', rURL = ''http://peer/rpc'', rBody = ''empty'', rContext = None\<rparr>"
  let ?resp = "\<lparr>StatusCode = 200, Body = \<lparr>content = ''empty'', bodyClose = None\<rparr>\<rparr>"
  let ?env = "\<lparr>respVersion = ''1.0'', respResult = None, respError = None, respId = None\<rparr>"
  have 1: "newResult (storeOf clientA) = Inr \<lparr>ID = UInt64 1, sessionClose = None\<rparr>"
    by (simp add: storeOf_def clientA_def DefaultIDStore_def defaultIDStore_New_def
        asIDSession_def defaultIDSession_ID_def defaultIDSession_Close_def)
  have 2: "EncodeCall toyLib (ID \<lparr>ID = UInt64 1, sessionClose = None\<rparr>) ''empty'' ''params'' =
      Inr ''empty''"
    by (simp add: EncodeCall_def toyLib_def)
  have 3: "NewRequest toyLib ''POST'' ''http://peer/rpc'' ''empty'' = Inr ?req"
    by (simp add: toyLib_def)
  have 4: "baseOf toyLib clientA (?req\<lparr>rContext := Some (Context 0)\<rparr>) = Inr ?resp"
    by (simp add: baseOf_def clientA_def toyLib_def)
  have 5: "Decode toyLib (Body ?resp) = Inr ?env"
    by (simp add: toyLib_def toyDecode_def)
  have 6: "respError ?env = None" and 7: "respResult ?env = None"
    by simp_all
  from Call_panics_without_result [OF 1 2 3 4 5 6 7, of "''before''"] show ?thesis
    by simp
qed

text \<open>
  C4. Every path through \<open>Call\<close>. Without a session nothing is closed. With a session,
  the closers closed are the session alone, or the response body and then the session;
  the session is closed on every path, also when \<open>Call\<close> panics. A failure of encoding,
  of building the request or of the transport is returned as it is, whatever closing the
  session answers. Once a response is there, its body is closed, then the session, and
  the error returned is the first failure among decoding, closing the body and closing
  the session.
\<close>

theorem Call_releases_first_failure_wins:
  "(\<forall>e. newResult (storeOf client) = Inl e \<longrightarrow>
      fst (Call E client ctx url name params reply) = (Return (Some e), reply, [])) \<and>
   (\<forall>session. newResult (storeOf client) = Inr session \<longrightarrow>
      (snd (snd (fst (Call E client ctx url name params reply))) = [ofSession session] \<or>
       (\<exists>resp :: Response. snd (snd (fst (Call E client ctx url name params reply))) =
          [ofBody (Body resp), ofSession session])) \<and>
      (\<forall>e. EncodeCall E (ID session) name params = Inl e \<longrightarrow>
         fst (Call E client ctx url name params reply) =
           (Return (Some e), reply, [ofSession session])) \<and>
      (\<forall>body. EncodeCall E (ID session) name params = Inr body \<longrightarrow>
         (\<forall>e. NewRequest E ''POST'' url body = Inl e \<longrightarrow>
            fst (Call E client ctx url name params reply) =
              (Return (Some e), reply, [ofSession session])) \<and>
         (\<forall>req. NewRequest E ''POST'' url body = Inr req \<longrightarrow>
            (ctx = None \<longrightarrow>
               fst (Call E client ctx url name params reply) =
                 (Panic ''nil context'', reply, [ofSession session])) \<and>
            (\<forall>c. ctx = Some c \<longrightarrow>
               (\<forall>e. baseOf E client (req\<lparr>rContext := Some c\<rparr>) = Inl e \<longrightarrow>
                  fst (Call E client ctx url name params reply) =
                    (Return (Some e), reply, [ofSession session])) \<and>
               (\<forall>resp :: Response. baseOf E client (req\<lparr>rContext := Some c\<rparr>) = Inr resp \<longrightarrow>
                  fst (Call E client ctx url name params reply) =
                    (case fst (DecodeReply E (Body resp) reply) of
                       Return err \<Rightarrow>
                         (Return (firstFailure [err, bodyClose (Body resp), sessionClose session]),
                          snd (DecodeReply E (Body resp) reply),
                          [ofBody (Body resp), ofSession session])
                     | Panic msg \<Rightarrow>
                         (Panic msg, snd (DecodeReply E (Body resp) reply),
                          [ofBody (Body resp), ofSession session])))))))"
  by (auto simp: Call_def Let_def deferCheckClose_Return deferCheckClose_Panic firstFailure_two
      split: sum.splits option.splits prod.splits result.splits)

text \<open>
  A decoded reply, then both closes fail: the error of the first close, the body's, is
  returned.
\<close>

theorem Call_releases_first_failure_wins_witness:
  "fst (Call toyLib leakyClient (Some (Context 0)) ''http://peer/rpc'' ''[1,2]'' ''params'' ''before'') =
     (Return (Some (Foreign ''body close failed'')), ''[1,2]'',
      [ofBody (leakyBody ''[1,2]''), ofSession leakySession])"
proof -
  have d: "DecodeReply toyLib (leakyBody ''[1,2]'') ''before'' = (Return None, ''[1,2]'')"
    by (simp add: DecodeReply_def toyLib_def toyDecode_def leakyBody_def)
  from Call_releases_first_failure_wins
    [where client = leakyClient and E = toyLib and ctx = "Some (Context 0)"
       and url = "''http://peer/rpc''" and name = "''[1,2]''" and params = "''params''"
       and reply = "''before''"]
    leaky_session leaky_reach [of "''[1,2]''"] d
  show ?thesis
    by (simp add: leakyBody_def leakySession_def)
qed

text \<open>
  C10. \<open>DecodeReply\<close> returns exactly when the body does not decode or the decoded
  envelope has a result or an error. When the envelope decodes and has no error, the
  result pointer is dereferenced: with no result either this is a nil-pointer panic, not a
  returned error, and with a result it is unmarshalled into the reply.
\<close>

theorem DecodeReply_needs_result_or_error:
  "((\<exists>err reply'. DecodeReply E r reply = (Return err, reply')) \<longleftrightarrow>
      (\<forall>response. Decode E r = Inr response \<longrightarrow>
         respResult response \<noteq> None \<or> respError response \<noteq> None)) \<and>
   (\<forall>response. Decode E r = Inr response \<and> respError response = None \<longrightarrow>
      DecodeReply E r reply =
        (case respResult response of
           None \<Rightarrow> (Panic ''invalid memory address or nil pointer dereference'', reply)
         | Some raw \<Rightarrow> (Return (fst (Unmarshal E raw reply)), snd (Unmarshal E raw reply))))"
  by (auto simp: DecodeReply_def split: sum.splits option.splits prod.splits)

text \<open>An envelope with neither field, and one with a result.\<close>

theorem DecodeReply_needs_result_or_error_witness:
  "Decode toyLib \<lparr>content = ''empty'', bodyClose = None\<rparr> =
     Inr \<lparr>respVersion = ''1.0'', respResult = None, respError = None, respId = None\<rparr> \<and>
   DecodeReply toyLib \<lparr>content = ''empty'', bodyClose = None\<rparr> ''before'' =
     (Panic ''invalid memory address or nil pointer dereference'', ''before'') \<and>
   DecodeReply toyLib \<lparr>content = ''[1,2]'', bodyClose = None\<rparr> ''before'' = (Return None, ''[1,2]'')"
proof -
  let ?e = "\<lparr>content = ''empty'', bodyClose = None\<rparr>"
  let ?b = "\<lparr>content = ''[1,2]'', bodyClose = None\<rparr>"
  have d: "Decode toyLib ?e =
      Inr \<lparr>respVersion = ''1.0'', respResult = None, respError = None, respId = None\<rparr>"
    by (simp add: toyLib_def toyDecode_def)
  have d': "Decode toyLib ?b =
      Inr \<lparr>respVersion = ''1.0'', respResult = Some ''[1,2]'', respError = None, respId = None\<rparr>"
    by (simp add: toyLib_def toyDecode_def)
  have u: "Unmarshal toyLib ''[1,2]'' ''before'' = (None, ''[1,2]'')"
    by (simp add: toyLib_def)
  from DecodeReply_needs_result_or_error [of toyLib ?e "''before''"] d
  have 1: "DecodeReply toyLib ?e ''before'' =
     (Panic ''invalid memory address or nil pointer dereference'', ''before'')"
    by simp
  from DecodeReply_needs_result_or_error [of toyLib ?b "''before''"] d' u
  have 2: "DecodeReply toyLib ?b ''before'' = (Return None, ''[1,2]'')"
    by simp
  from d 1 2 show ?thesis by blast
qed

end
